theory Spec2Isabelle
  imports Complex_Main "HOL-Library.Product_Lexorder" "HOL-Library.AList"
begin

section \<open>Retry / recovery controller (app/services/error_handler.py)\<close>

text \<open>
  The handler classifies a failure by the name of its exception class, asks an anomaly
  detector for a verdict and picks a retry strategy. Floating-point settings of a
  strategy (delays, backoff factor) are finite literals and are modelled as rationals;
  the wall-clock timestamp of a pattern is the number of seconds since the epoch.
\<close>

record ErrorPattern =
  error_type :: string
  error_message :: string
  stack_trace :: string
  error_context :: "(string \<times> string) list"
  timestamp :: int
  severity :: string
  workflow_id :: int
  retry_count :: int
  resolution_status :: string

datatype cond_value = CStr string | CBool bool

record RetryStrategy =
  stage :: string
  max_retries :: int
  backoff_factor :: rat
  initial_delay :: rat
  max_delay :: rat
  conditions :: "(string \<times> cond_value) list"

text \<open>\<^verbatim>\<open>_determine_severity\<close>: a dictionary lookup on \<^verbatim>\<open>type(error).__name__\<close>
  with the default \<^verbatim>\<open>"medium"\<close>.\<close>

definition severity_rules :: "(string \<times> string) list" where
  "severity_rules =
     [(''ConnectionError'', ''high''),
      (''TimeoutError'', ''medium''),
      (''ValueError'', ''low''),
      (''KeyError'', ''medium''),
      (''TypeError'', ''low'')]"

definition determine_severity :: "string \<Rightarrow> string" where
  "determine_severity error_type_name =
     (case map_of severity_rules error_type_name of
        Some s \<Rightarrow> s
      | None \<Rightarrow> ''medium'')"

text \<open>\<^verbatim>\<open>_severity_to_numeric\<close> and \<^verbatim>\<open>_timestamp_to_numeric\<close>. Severities
  in this file are lower-case already, so \<^verbatim>\<open>severity.lower()\<close> is the identity on
  every value \<^verbatim>\<open>_determine_severity\<close> produces; the model lowers ASCII letters.\<close>

definition lower_char :: "char \<Rightarrow> char" where
  "lower_char c =
     (let n = (of_char c :: nat) in if 65 \<le> n \<and> n \<le> 90 then char_of (n + 32) else c)"

definition severity_to_numeric :: "string \<Rightarrow> int" where
  "severity_to_numeric sev =
     (case map_of [(''critical'', 4), (''high'', 3), (''medium'', 2), (''low'', 1)]
             (map lower_char sev) of
        Some n \<Rightarrow> n
      | None \<Rightarrow> 0)"

definition timestamp_to_numeric :: "int \<Rightarrow> rat" where
  "timestamp_to_numeric ts = of_int ts / 3600"

text \<open>\<^verbatim>\<open>_extract_features\<close>: one five-entry vector per pattern.\<close>

type_synonym feature_vector = "rat list"

definition extract_features :: "ErrorPattern list \<Rightarrow> feature_vector list" where
  "extract_features patterns =
     map (\<lambda>pattern.
            [of_nat (length (error_message pattern)),
             of_nat (length (stack_trace pattern)),
             of_int (retry_count pattern),
             of_int (severity_to_numeric (severity pattern)),
             timestamp_to_numeric (timestamp pattern)])
         patterns"

text \<open>\<^verbatim>\<open>_detect_anomaly\<close>. The isolation forest is an external scorer: it is a
  parameter that maps the feature matrix to its predictions, or to \<open>None\<close> when
  \<^verbatim>\<open>predict\<close> raises (an unfitted model does); the handler catches that and
  answers \<open>False\<close>. A prediction of \<open>-1\<close> flags an anomaly.\<close>

type_synonym anomaly_detector = "feature_vector list \<Rightarrow> int list option"

definition detect_anomaly :: "anomaly_detector \<Rightarrow> ErrorPattern \<Rightarrow> bool" where
  "detect_anomaly predict pattern =
     (let features = extract_features [pattern] in
      if length features = 0 then False
      else (case predict features of
              None \<Rightarrow> False
            | Some [] \<Rightarrow> False
            | Some (p # _) \<Rightarrow> p = - 1))"

text \<open>\<^verbatim>\<open>_get_retry_strategy\<close>: the branch is chosen by the severity string alone;
  the anomaly flag is copied into \<^verbatim>\<open>conditions\<close>.\<close>

definition get_retry_strategy :: "ErrorPattern \<Rightarrow> bool \<Rightarrow> RetryStrategy" where
  "get_retry_strategy pattern is_anomaly =
     (if severity pattern = ''critical'' then
        \<lparr>stage = ''immediate'', max_retries = 3, backoff_factor = 3 / 2,
         initial_delay = 1, max_delay = 30,
         conditions = [(''severity'', CStr ''critical''), (''is_anomaly'', CBool is_anomaly)]\<rparr>
      else if severity pattern = ''high'' then
        \<lparr>stage = ''delayed'', max_retries = 5, backoff_factor = 2,
         initial_delay = 5, max_delay = 300,
         conditions = [(''severity'', CStr ''high''), (''is_anomaly'', CBool is_anomaly)]\<rparr>
      else
        \<lparr>stage = ''manual'', max_retries = 1, backoff_factor = 1,
         initial_delay = 0, max_delay = 0,
         conditions = [(''severity'', CStr (severity pattern)),
                       (''is_anomaly'', CBool is_anomaly)]\<rparr>)"

text \<open>The first steps of \<^verbatim>\<open>handle_error\<close>: build the pattern from the exception
  (its class name, message and stack trace), detect, select. \<open>now\<close> is the clock
  reading.\<close>

definition make_pattern ::
  "string \<Rightarrow> string \<Rightarrow> string \<Rightarrow> int \<Rightarrow> (string \<times> string) list \<Rightarrow> int \<Rightarrow> ErrorPattern" where
  "make_pattern exn_name exn_message trace wf_id ctx now =
     \<lparr>error_type = exn_name, error_message = exn_message, stack_trace = trace,
      error_context = ctx, timestamp = now, severity = determine_severity exn_name,
      workflow_id = wf_id, retry_count = 0, resolution_status = ''pending''\<rparr>"

definition select_strategy ::
  "anomaly_detector \<Rightarrow> string \<Rightarrow> string \<Rightarrow> string \<Rightarrow> int \<Rightarrow> (string \<times> string) list \<Rightarrow> int
     \<Rightarrow> RetryStrategy" where
  "select_strategy predict exn_name exn_message trace wf_id ctx now =
     (let pattern = make_pattern exn_name exn_message trace wf_id ctx now;
          is_anomaly = detect_anomaly predict pattern
      in get_retry_strategy pattern is_anomaly)"

section \<open>Workflow engine (aetheriq/core/workflow.py)\<close>

text \<open>
  The task dataclass and the workflow record the engine works on. Opaque dictionaries
  (task configuration, results, metadata) are association lists of strings. The two
  timestamps of a task are written from the wall clock and read nowhere; they are left
  out. A handler is a function of the task's configuration; \<^verbatim>\<open>asyncio.wait_for\<close>
  either passes its result or its exception through or raises a timeout.
\<close>

datatype WorkflowStatus =
  WF_PENDING | WF_RUNNING | WF_COMPLETED | WF_FAILED | WF_CANCELLED | WF_PAUSED

datatype TaskStatus = PENDING | RUNNING | COMPLETED | FAILED | SKIPPED

type_synonym pydict = "(string \<times> string) list"

record WorkflowTask =
  task_id :: string
  name :: string
  task_type :: string
  config :: pydict
  dependencies :: "string list"
  timeout :: int
  retries :: int
  status :: TaskStatus
  result :: "pydict option"
  error :: "string option"
  task_retry_count :: int

record Workflow =
  wf_id :: string
  wf_name :: string
  wf_status :: WorkflowStatus
  tasks :: "WorkflowTask list"
  metadata :: pydict

datatype handler_outcome = Returned pydict | Raised string | TimedOut

type_synonym handler = "pydict \<Rightarrow> int \<Rightarrow> handler_outcome"

type_synonym registry = "string \<rightharpoonup> handler"

text \<open>\<^verbatim>\<open>_register_default_tasks\<close> and the three default handlers.\<close>

definition default_registry :: registry where
  "default_registry =
     [''system_check'' \<mapsto> (\<lambda>cfg t. Returned [(''status'', ''healthy'')]),
      ''data_backup'' \<mapsto> (\<lambda>cfg t. Returned [(''status'', ''backup_completed'')]),
      ''log_cleanup'' \<mapsto> (\<lambda>cfg t. Returned [(''status'', ''cleanup_completed'')])]"

text \<open>\<^verbatim>\<open>_execute_task\<close>: the task enters RUNNING, then its handler decides. The
  left summand is the message of the exception the coroutine ends with (the timeout
  exception has an empty message).\<close>

definition execute_task :: "registry \<Rightarrow> WorkflowTask \<Rightarrow> (string + pydict) \<times> WorkflowTask" where
  "execute_task reg task0 =
     (let task = task0\<lparr>status := RUNNING\<rparr> in
      case reg (task_type task) of
        None \<Rightarrow>
          (let msg = ''No handler registered for task type: '' @ task_type task
           in (Inl msg, task\<lparr>status := FAILED, error := Some msg\<rparr>))
      | Some h \<Rightarrow>
          (case h (config task) (timeout task) of
             Returned r \<Rightarrow> (Inr r, task\<lparr>status := COMPLETED, result := Some r\<rparr>)
           | TimedOut \<Rightarrow>
               (Inl [], task\<lparr>status := FAILED, error := Some ''Task execution timed out''\<rparr>)
           | Raised msg \<Rightarrow> (Inl msg, task\<lparr>status := FAILED, error := Some msg\<rparr>)))"

text \<open>The "process results" step of the scheduler for one gathered result.\<close>

definition process_result :: "WorkflowTask \<Rightarrow> (string + pydict) \<Rightarrow> WorkflowTask" where
  "process_result task res =
     (case res of
        Inl msg \<Rightarrow> task\<lparr>status := FAILED, error := Some msg\<rparr>
      | Inr r \<Rightarrow> task\<lparr>status := COMPLETED, result := Some r\<rparr>)"

definition run_task :: "registry \<Rightarrow> WorkflowTask \<Rightarrow> WorkflowTask" where
  "run_task reg task =
     (case execute_task reg task of (res, task') \<Rightarrow> process_result task' res)"

text \<open>The ready filter of the scheduler loop. The set \<^verbatim>\<open>completed_tasks\<close> is kept
  as a list without repetitions: \<^verbatim>\<open>add\<close> is \<^const>\<open>List.insert\<close> and
  \<^verbatim>\<open>len\<close> is \<^const>\<open>length\<close>.\<close>

definition is_ready :: "string list \<Rightarrow> WorkflowTask \<Rightarrow> bool" where
  "is_ready completed_tasks task \<longleftrightarrow>
     task_id task \<notin> set completed_tasks \<and>
     list_all (\<lambda>dep. dep \<in> set completed_tasks) (dependencies task)"

definition ready_tasks :: "WorkflowTask list \<Rightarrow> string list \<Rightarrow> WorkflowTask list" where
  "ready_tasks ts completed_tasks = filter (is_ready completed_tasks) ts"

text \<open>One pass of the loop body: every ready task is executed and its result
  processed (the task objects are updated in place, the others are untouched), and the
  ids of the ready tasks join \<^verbatim>\<open>completed_tasks\<close>, whatever the result was.
  \<^verbatim>\<open>asyncio.gather\<close> runs the ready tasks of a pass concurrently; each of them
  writes to its own task object only, so the pass is modelled task by task.\<close>

definition add_completed :: "WorkflowTask list \<Rightarrow> string list \<Rightarrow> string list" where
  "add_completed ready completed_tasks =
     fold (\<lambda>task acc. List.insert (task_id task) acc) ready completed_tasks"

definition run_round ::
  "registry \<Rightarrow> WorkflowTask list \<Rightarrow> string list \<Rightarrow> WorkflowTask list \<times> string list" where
  "run_round reg ts completed_tasks =
     (map (\<lambda>task. if is_ready completed_tasks task then run_task reg task else task) ts,
      add_completed (ready_tasks ts completed_tasks) completed_tasks)"

text \<open>The \<^verbatim>\<open>while\<close> loop of \<^verbatim>\<open>_execute_workflow_tasks\<close>, with its
  \<^verbatim>\<open>break\<close> on an empty ready list. It returns the task list as the loop leaves it.\<close>

function schedule :: "registry \<Rightarrow> WorkflowTask list \<Rightarrow> string list \<Rightarrow> WorkflowTask list" where
  "schedule reg ts completed_tasks =
     (if length completed_tasks < length ts then
        (if ready_tasks ts completed_tasks = [] then ts
         else schedule reg (fst (run_round reg ts completed_tasks))
                (snd (run_round reg ts completed_tasks)))
      else ts)"
  by pat_completeness auto
termination
proof (relation "measure (\<lambda>(reg, ts, completed_tasks). length ts - length completed_tasks)")
  show "wf (measure (\<lambda>(reg, ts, completed_tasks). length ts - length completed_tasks))"
    by simp
next
  fix reg :: registry and ts :: "WorkflowTask list" and completed_tasks :: "string list"
  assume lt: "length completed_tasks < length ts"
    and ready: "ready_tasks ts completed_tasks \<noteq> []"
  have grows: "length acc \<le> length (add_completed more acc)" for more acc
  proof (induction more arbitrary: acc)
    case Nil
    then show ?case by (simp add: add_completed_def)
  next
    case (Cons t more)
    have "length acc \<le> length (List.insert (task_id t) acc)"
      by (simp add: List.insert_def)
    also have "\<dots> \<le> length (add_completed more (List.insert (task_id t) acc))"
      by (rule Cons.IH)
    finally show ?case by (simp add: add_completed_def)
  qed
  from ready obtain t rest where split: "ready_tasks ts completed_tasks = t # rest"
    by (cases "ready_tasks ts completed_tasks") auto
  then have "t \<in> set (ready_tasks ts completed_tasks)" by simp
  then have "task_id t \<notin> set completed_tasks"
    by (simp add: ready_tasks_def is_ready_def)
  then have "length completed_tasks < length (List.insert (task_id t) completed_tasks)"
    by simp
  also have "\<dots> \<le> length (add_completed rest (List.insert (task_id t) completed_tasks))"
    by (rule grows)
  finally have "length completed_tasks
          < length (add_completed (ready_tasks ts completed_tasks) completed_tasks)"
    by (simp add: split add_completed_def)
  with lt show "((reg, fst (run_round reg ts completed_tasks),
                  snd (run_round reg ts completed_tasks)),
                 reg, ts, completed_tasks)
         \<in> measure (\<lambda>(reg, ts, completed_tasks). length ts - length completed_tasks)"
    by (simp add: run_round_def)
qed

declare schedule.simps [simp del]



text \<open>The loop heads an execution passes through, in order: the loop starts with the
  stored tasks and an empty completed set, and one more pass is made while the loop
  condition holds and the ready list is not empty. A task is dispatched at a loop head
  when the loop body runs there and the task is in the ready list.\<close>

function loop_heads ::
  "registry \<Rightarrow> WorkflowTask list \<Rightarrow> string list \<Rightarrow> (WorkflowTask list \<times> string list) list" where
  "loop_heads reg ts completed_tasks =
     (ts, completed_tasks) #
     (if length completed_tasks < length ts \<and> ready_tasks ts completed_tasks \<noteq> []
      then loop_heads reg (fst (run_round reg ts completed_tasks))
             (snd (run_round reg ts completed_tasks))
      else [])"
  by pat_completeness auto
termination
proof (relation "measure (\<lambda>(reg, ts, completed_tasks). length ts - length completed_tasks)")
  show "wf (measure (\<lambda>(reg, ts, completed_tasks). length ts - length completed_tasks))"
    by simp
next
  fix reg :: registry and ts :: "WorkflowTask list" and completed_tasks :: "string list"
  assume cond: "length completed_tasks < length ts \<and> ready_tasks ts completed_tasks \<noteq> []"
  have keeps: "length acc \<le> length (add_completed more acc)" for more acc
  proof (induction more arbitrary: acc)
    case Nil
    show ?case by (simp add: add_completed_def)
  next
    case (Cons t more)
    have "length acc \<le> length (List.insert (task_id t) acc)"
      by (simp add: List.insert_def)
    with Cons.IH [of "List.insert (task_id t) acc"] show ?case
      by (simp add: add_completed_def)
  qed
  from cond obtain t rest where split: "ready_tasks ts completed_tasks = t # rest"
    by (cases "ready_tasks ts completed_tasks") auto
  then have "is_ready completed_tasks t"
    by (metis filter_eq_Cons_iff ready_tasks_def)
  then have "List.insert (task_id t) completed_tasks = task_id t # completed_tasks"
    by (simp add: is_ready_def)
  then have "add_completed (ready_tasks ts completed_tasks) completed_tasks
               = add_completed rest (task_id t # completed_tasks)"
    by (simp add: split add_completed_def)
  with keeps [of "task_id t # completed_tasks" rest]
  have "length completed_tasks
          < length (add_completed (ready_tasks ts completed_tasks) completed_tasks)"
    by simp
  moreover from cond have "length completed_tasks < length ts" by simp
  ultimately show "((reg, fst (run_round reg ts completed_tasks),
                  snd (run_round reg ts completed_tasks)),
                 reg, ts, completed_tasks)
         \<in> measure (\<lambda>(reg, ts, completed_tasks). length ts - length completed_tasks)"
    by (simp add: run_round_def)
qed

declare loop_heads.simps [simp del]

definition dispatched_at :: "WorkflowTask list \<times> string list \<Rightarrow> WorkflowTask \<Rightarrow> bool" where
  "dispatched_at head task \<longleftrightarrow>
     length (snd head) < length (fst head) \<and> task \<in> set (ready_tasks (fst head) (snd head))"

text \<open>The loop invariant: every id in the completed set is the id of a task that has
  been run and is COMPLETED or FAILED.\<close>

definition finished_ids :: "WorkflowTask list \<times> string list \<Rightarrow> bool" where
  "finished_ids head \<longleftrightarrow>
     (\<forall>d \<in> set (snd head). \<exists>u \<in> set (fst head).
        task_id u = d \<and> (status u = COMPLETED \<or> status u = FAILED))"

subsection \<open>The engine: persistence port, identifiers, create and execute\<close>






definition get_or :: "'a option \<Rightarrow> 'a \<Rightarrow> 'a" where
  "get_or v d = (case v of None \<Rightarrow> d | Some x \<Rightarrow> x)"












section \<open>JSON values\<close>

text \<open>Payloads, checkpoint data and node entries are JSON values. A dictionary is an
  association list in insertion order (keys are not repeated); \<^verbatim>\<open>d.get(k, default)\<close>
  and \<^verbatim>\<open>d.update(e)\<close> are \<open>dict_get\<close> and \<open>dict_update\<close>.\<close>

datatype json =
  JNull | JBool bool | JInt int | JStr string | JList "json list" | JDict "(string \<times> json) list"

definition dict_get :: "(string \<times> json) list \<Rightarrow> string \<Rightarrow> json \<Rightarrow> json" where
  "dict_get d k dflt = (case map_of d k of None \<Rightarrow> dflt | Some v \<Rightarrow> v)"

definition dict_update :: "(string \<times> json) list \<Rightarrow> (string \<times> json) list \<Rightarrow> (string \<times> json) list" where
  "dict_update d e = fold (\<lambda>(k, v) acc. AList.update k v acc) e d"

definition py_len :: "json \<Rightarrow> nat option" where
  "py_len v =
     (case v of
        JList xs \<Rightarrow> Some (length xs)
      | JStr str \<Rightarrow> Some (length str)
      | JDict d \<Rightarrow> Some (length d)
      | _ \<Rightarrow> None)"

section \<open>Analytics intake (aetheriq/core/analytics.py)\<close>

text \<open>The engine's settings are read from the configuration with defaults; the queue is
  created by \<^verbatim>\<open>asyncio.Queue()\<close> with no \<^verbatim>\<open>maxsize\<close>, so \<^verbatim>\<open>put\<close> always
  appends. \<open>now\<close> is the clock reading that stamps the item.\<close>

record queue_item =
  item_data :: "(string \<times> json) list"
  item_type :: string
  item_timestamp :: int

record AnalyticsEngine =
  batch_size :: int
  processing_interval :: int
  data_retention_days :: int
  max_processing_time :: int
  processing_queue :: "queue_item list"
  is_processing :: bool

record intake_response =
  intake_status :: string
  intake_message :: string
  intake_queue_size :: "nat option"

definition analytics_init :: "(string \<times> int) list \<Rightarrow> AnalyticsEngine" where
  "analytics_init cfg =
     \<lparr>batch_size = get_or (map_of cfg ''batch_size'') 1000,
      processing_interval = get_or (map_of cfg ''processing_interval_seconds'') 60,
      data_retention_days = get_or (map_of cfg ''data_retention_days'') 90,
      max_processing_time = get_or (map_of cfg ''max_processing_time_seconds'') 300,
      processing_queue = [],
      is_processing = False\<rparr>"

definition process_workflow_data :: "(string \<times> json) list \<Rightarrow> string + (string \<times> json) list" where
  "process_workflow_data d =
     (case py_len (dict_get d ''errors'' (JList [])) of
        None \<Rightarrow> Inl ''object has no len()''
      | Some n \<Rightarrow>
          Inr [(''execution_time'', dict_get d ''execution_time'' (JInt 0)),
               (''status'', dict_get d ''status'' (JStr ''unknown'')),
               (''resource_usage'', dict_get d ''resource_usage'' (JDict [])),
               (''error_count'', JInt (int n))])"

definition process_system_metrics :: "(string \<times> json) list \<Rightarrow> (string \<times> json) list" where
  "process_system_metrics d =
     [(''cpu_usage'', dict_get d ''cpu_usage'' (JInt 0)),
      (''memory_usage'', dict_get d ''memory_usage'' (JInt 0)),
      (''disk_usage'', dict_get d ''disk_usage'' (JInt 0)),
      (''network_traffic'', dict_get d ''network_traffic'' (JInt 0))]"

definition process_user_activity :: "(string \<times> json) list \<Rightarrow> (string \<times> json) list" where
  "process_user_activity d =
     [(''user_id'', dict_get d ''user_id'' (JStr ''unknown'')),
      (''action'', dict_get d ''action'' (JStr ''unknown'')),
      (''resource_type'', dict_get d ''resource_type'' (JStr ''unknown'')),
      (''duration'', dict_get d ''duration'' (JInt 0))]"

text \<open>\<^verbatim>\<open>_preprocess_data\<close>: a payload that is not a dictionary raises
  \<^verbatim>\<open>ValueError\<close>; the left summand is the message of the exception.\<close>

definition preprocess_data :: "json \<Rightarrow> string \<Rightarrow> int \<Rightarrow> string + (string \<times> json) list" where
  "preprocess_data data data_type now =
     (case data of
        JDict d \<Rightarrow>
          (let processed =
                 [(''raw_data'', data), (''processed_at'', JInt now),
                  (''data_type'', JStr data_type)]
           in if data_type = ''workflow_execution'' then
                (case process_workflow_data d of
                   Inl msg \<Rightarrow> Inl msg
                 | Inr extra \<Rightarrow> Inr (dict_update processed extra))
              else if data_type = ''system_metrics'' then
                Inr (dict_update processed (process_system_metrics d))
              else if data_type = ''user_activity'' then
                Inr (dict_update processed (process_user_activity d))
              else Inr processed)
      | _ \<Rightarrow> Inl ''Data must be a dictionary'')"

text \<open>\<^verbatim>\<open>process_data\<close>: preprocess, put on the queue, report the queue size.
  An exception of the preprocessing becomes an error response.\<close>

definition process_data ::
  "AnalyticsEngine \<Rightarrow> json \<Rightarrow> string \<Rightarrow> int \<Rightarrow> intake_response \<times> AnalyticsEngine" where
  "process_data eng data data_type now =
     (case preprocess_data data data_type now of
        Inl msg \<Rightarrow>
          (\<lparr>intake_status = ''error'', intake_message = msg, intake_queue_size = None\<rparr>, eng)
      | Inr processed_data \<Rightarrow>
          (let eng' = eng\<lparr>processing_queue := processing_queue eng @
                           [\<lparr>item_data = processed_data, item_type = data_type,
                             item_timestamp = now\<rparr>]\<rparr>
           in (\<lparr>intake_status = ''success'', intake_message = ''Data queued for processing'',
                intake_queue_size = Some (length (processing_queue eng'))\<rparr>, eng')))"

section \<open>Checkpoint restoration (app/services/error_handler.py, app/services/failover.py)\<close>

text \<open>
  The tables the recovery path reads and writes. A statement on a database that is
  down raises, and every function of the path catches that and answers \<open>False\<close>.
  \<^verbatim>\<open>ORDER BY created_at DESC LIMIT 1\<close> picks a row with the greatest
  \<^verbatim>\<open>created_at\<close>; among equal ones the model takes the first in table order.
\<close>

record workflow_row =
  row_id :: int
  row_name :: string
  row_status :: string
  input_data :: "json option"
  output_data :: "json option"
  row_error_message :: "string option"
  resource_usage :: "json option"

record checkpoint_row =
  cp_workflow_id :: int
  created_at :: int
  checkpoint_data :: "(string \<times> json) list"

record handler_db =
  workflows :: "workflow_row list"
  workflow_checkpoints :: "checkpoint_row list"
  db_up :: bool

fun latest :: "checkpoint_row list \<Rightarrow> checkpoint_row option" where
  "latest [] = None"
| "latest (c # cs) =
     (case latest cs of
        None \<Rightarrow> Some c
      | Some m \<Rightarrow> if created_at c < created_at m then Some m else Some c)"

definition last_checkpoint :: "handler_db \<Rightarrow> int \<Rightarrow> checkpoint_row option" where
  "last_checkpoint db wid = latest (filter (\<lambda>c. cp_workflow_id c = wid) (workflow_checkpoints db))"

definition update_rows :: "handler_db \<Rightarrow> int \<Rightarrow> (workflow_row \<Rightarrow> workflow_row) \<Rightarrow> handler_db" where
  "update_rows db wid f =
     db\<lparr>workflows := map (\<lambda>r. if row_id r = wid then f r else r) (workflows db)\<rparr>"

definition get_workflow_details :: "handler_db \<Rightarrow> int \<Rightarrow> workflow_row option" where
  "get_workflow_details db wid =
     (if db_up db then find (\<lambda>r. row_id r = wid) (workflows db) else None)"

definition apply_checkpoint :: "(string \<times> json) list \<Rightarrow> workflow_row \<Rightarrow> workflow_row" where
  "apply_checkpoint cd r =
     r\<lparr>input_data := map_of cd ''input_data'',
       output_data := map_of cd ''output_data'',
       resource_usage := map_of cd ''resource_usage''\<rparr>"

definition mark_recovering :: "workflow_row \<Rightarrow> workflow_row" where
  "mark_recovering r = r\<lparr>row_status := ''recovering'', row_error_message := None\<rparr>"

definition mark_running :: "workflow_row \<Rightarrow> workflow_row" where
  "mark_running r = r\<lparr>row_status := ''running''\<rparr>"

text \<open>\<^verbatim>\<open>_restore_from_checkpoint\<close>: the last checkpoint of the workflow is read
  and, when there is one, three of its entries are written to the workflow row
  (\<open>apply_checkpoint\<close>, the second \<^verbatim>\<open>UPDATE\<close>). No other entry of the checkpoint
  is read. \<open>mark_recovering\<close> and \<open>mark_running\<close> are the two status updates of
  \<^verbatim>\<open>_recover_workflow_state\<close>.\<close>

definition restore_from_checkpoint :: "handler_db \<Rightarrow> int \<Rightarrow> bool \<times> handler_db" where
  "restore_from_checkpoint db wid =
     (if \<not> db_up db then (False, db)
      else
        (case last_checkpoint db wid of
           None \<Rightarrow> (False, db)
         | Some cp \<Rightarrow>
             (True, update_rows db wid (apply_checkpoint (checkpoint_data cp)))))"

text \<open>\<^verbatim>\<open>_recover_workflow_state\<close> and \<^verbatim>\<open>_attempt_recovery\<close>: the step every
  retry attempt of the immediate and the delayed strategy performs. The update of the
  error pattern's own row after a success touches another table and is left out.\<close>

definition recover_workflow_state :: "handler_db \<Rightarrow> int \<Rightarrow> bool \<times> handler_db" where
  "recover_workflow_state db wid =
     (if \<not> db_up db then (False, db)
      else
        (let db1 = update_rows db wid mark_recovering
         in case restore_from_checkpoint db1 wid of
              (True, db2) \<Rightarrow> (True, update_rows db2 wid mark_running)
            | (False, db2) \<Rightarrow> (False, db2)))"

definition attempt_recovery :: "handler_db \<Rightarrow> ErrorPattern \<Rightarrow> bool \<times> handler_db" where
  "attempt_recovery db pattern =
     (case get_workflow_details db (workflow_id pattern) of
        None \<Rightarrow> (False, db)
      | Some workflow \<Rightarrow> recover_workflow_state db (row_id workflow))"

text \<open>The loop of \<^verbatim>\<open>_execute_immediate_retry\<close> and of
  \<^verbatim>\<open>_execute_delayed_retry\<close> (the same code): sleep, attempt the recovery, and
  either report the attempt and its delay or lengthen the delay and go on; after
  \<^verbatim>\<open>max_retries\<close> attempts report the failure. Sleeping changes no state. The
  manual stage makes no attempt; its two inserts go to other tables and are left out.\<close>

datatype retry_outcome = RetrySucceeded nat rat | RetryFailed int rat | ManualIntervention

definition next_delay :: "RetryStrategy \<Rightarrow> rat \<Rightarrow> rat" where
  "next_delay strategy delay = min (delay * backoff_factor strategy) (max_delay strategy)"

fun retry_loop ::
  "nat \<Rightarrow> nat \<Rightarrow> rat \<Rightarrow> RetryStrategy \<Rightarrow> ErrorPattern \<Rightarrow> handler_db
     \<Rightarrow> retry_outcome \<times> handler_db" where
  "retry_loop 0 attempt delay strategy pattern db =
     (RetryFailed (max_retries strategy) delay, db)"
| "retry_loop (Suc n) attempt delay strategy pattern db =
     (case attempt_recovery db pattern of
        (True, db') \<Rightarrow> (RetrySucceeded (attempt + 1) delay, db')
      | (False, db') \<Rightarrow>
          retry_loop n (attempt + 1) (next_delay strategy delay) strategy pattern db')"

definition execute_immediate_retry ::
  "handler_db \<Rightarrow> ErrorPattern \<Rightarrow> RetryStrategy \<Rightarrow> retry_outcome \<times> handler_db" where
  "execute_immediate_retry db pattern strategy =
     retry_loop (nat (max_retries strategy)) 0 (initial_delay strategy) strategy pattern db"

definition execute_delayed_retry ::
  "handler_db \<Rightarrow> ErrorPattern \<Rightarrow> RetryStrategy \<Rightarrow> retry_outcome \<times> handler_db" where
  "execute_delayed_retry db pattern strategy =
     retry_loop (nat (max_retries strategy)) 0 (initial_delay strategy) strategy pattern db"

definition execute_retry_strategy ::
  "handler_db \<Rightarrow> ErrorPattern \<Rightarrow> RetryStrategy \<Rightarrow> retry_outcome \<times> handler_db" where
  "execute_retry_strategy db pattern strategy =
     (if stage strategy = ''immediate'' then execute_immediate_retry db pattern strategy
      else if stage strategy = ''delayed'' then execute_delayed_retry db pattern strategy
      else (ManualIntervention, db))"




section \<open>Primary election (app/services/failover.py)\<close>

text \<open>
  An entry of the node list in the coordination store. \<^verbatim>\<open>x["priority"]\<close> and
  \<^verbatim>\<open>x["load"]\<close> raise \<^verbatim>\<open>KeyError\<close> on an entry without the key, and
  \<^verbatim>\<open>sorted_nodes[0]\<close> raises on an empty list; \<^verbatim>\<open>_should_become_primary\<close>
  catches both and answers \<open>False\<close>. Loads are finite floats, modelled as rationals;
  keys are compared as tuples, lexicographically; \<^verbatim>\<open>sorted\<close> is stable and
  ascending, as \<^const>\<open>sort_key\<close> is.
\<close>

record node_entry =
  node_id :: string
  role :: string
  priority :: "int option"
  load :: "rat option"

definition election_key :: "node_entry \<Rightarrow> int \<times> rat" where
  "election_key x = (the (priority x), - the (load x))"

definition should_become_primary :: "node_entry list \<Rightarrow> string \<Rightarrow> bool" where
  "should_become_primary nodes current_node_id =
     (if list_ex (\<lambda>x. priority x = None \<or> load x = None) nodes then False
      else
        (case sort_key election_key nodes of
           [] \<Rightarrow> False
         | first_node # _ \<Rightarrow> node_id first_node = current_node_id))"

section \<open>Example data\<close>

text \<open>A task as the dataclass constructor builds it, a creation request's entry, and an
  engine on an empty store with the default handlers and the constructor's defaults.\<close>

definition new_task :: "string \<Rightarrow> string \<Rightarrow> string list \<Rightarrow> WorkflowTask" where
  "new_task i ty deps =
     \<lparr>task_id = i, name = i, task_type = ty, config = [], dependencies = deps,
      timeout = 300, retries = 3, status = PENDING, result = None, error = None,
      task_retry_count = 0\<rparr>"






text \<open>An analytics engine with default settings whose queue already holds ten thousand
  items.\<close>

definition sample_item :: queue_item where
  "sample_item = \<lparr>item_data = [], item_type = ''system_metrics'', item_timestamp = 0\<rparr>"

definition saturated_engine :: AnalyticsEngine where
  "saturated_engine = (analytics_init [])\<lparr>processing_queue := replicate 10000 sample_item\<rparr>"

text \<open>Two nodes: node-b has the higher priority and the lower load.\<close>

definition two_nodes :: "node_entry list" where
  "two_nodes =
     [\<lparr>node_id = ''node-a'', role = ''standby'', priority = Some 1, load = Some (1 / 2)\<rparr>,
      \<lparr>node_id = ''node-b'', role = ''standby'', priority = Some 5, load = Some (1 / 10)\<rparr>]"



section \<open>Severity classification\<close>

lemma determine_severity_cases:
  "determine_severity t =
     (if t = ''ConnectionError'' then ''high''
      else if t = ''ValueError'' \<or> t = ''TypeError'' then ''low''
      else ''medium'')"
  by (simp add: determine_severity_def severity_rules_def)

text \<open>
  Claim C6, as the code has it. The lookup table maps \<^verbatim>\<open>ConnectionError\<close> to
  \<^verbatim>\<open>high\<close>, \<^verbatim>\<open>TimeoutError\<close> and \<^verbatim>\<open>KeyError\<close> to \<^verbatim>\<open>medium\<close>,
  \<^verbatim>\<open>ValueError\<close> and \<^verbatim>\<open>TypeError\<close> to \<^verbatim>\<open>low\<close>; every other class name,
  the authentication and permission errors among them, gets the default
  \<^verbatim>\<open>medium\<close>, and no class name is classified \<^verbatim>\<open>critical\<close>.
\<close>

theorem determine_severity_table:
  "determine_severity ''ConnectionError'' = ''high'' \<and>
   determine_severity ''TimeoutError'' = ''medium'' \<and>
   determine_severity ''ValueError'' = ''low'' \<and>
   determine_severity ''TypeError'' = ''low'' \<and>
   determine_severity ''KeyError'' = ''medium'' \<and>
   (\<forall>t. t \<notin> {''ConnectionError'', ''ValueError'', ''TypeError''}
        \<longrightarrow> determine_severity t = ''medium'') \<and>
   (\<forall>t. determine_severity t \<noteq> ''critical'')"
  by (simp add: determine_severity_cases)

theorem determine_severity_table_witness:
  "''AuthenticationError'' \<notin> {''ConnectionError'', ''ValueError'', ''TypeError''} \<and>
   determine_severity ''AuthenticationError'' = ''medium''"
  using determine_severity_table by simp

text \<open>
  Claim C6 as the specification words it asks for \<^verbatim>\<open>critical\<close> on authentication and
  permission errors and for \<^verbatim>\<open>high\<close> on connection errors. Python's
  \<^verbatim>\<open>PermissionError\<close> is classified \<^verbatim>\<open>medium\<close>, and so is
  \<^verbatim>\<open>ConnectionRefusedError\<close>: the lookup is by the exact class name.
\<close>

theorem permission_error_not_critical:
  "determine_severity ''PermissionError'' = ''medium'' \<and>
   determine_severity ''PermissionError'' \<noteq> ''critical'' \<and>
   determine_severity ''ConnectionRefusedError'' = ''medium''"
  by (simp add: determine_severity_def severity_rules_def)

section \<open>Strategy selection\<close>

text \<open>
  Claim C7, as the code has it. The stage of the selected strategy is a function of the
  severity alone: \<^verbatim>\<open>critical\<close> gives \<^verbatim>\<open>immediate\<close>, \<^verbatim>\<open>high\<close> gives
  \<^verbatim>\<open>delayed\<close>, anything else \<^verbatim>\<open>manual\<close>. The anomaly verdict changes nothing but
  the \<^verbatim>\<open>is_anomaly\<close> entry of the strategy's conditions.
\<close>

theorem retry_stage_by_severity_only:
  "stage (get_retry_strategy pattern is_anomaly) =
     (if severity pattern = ''critical'' then ''immediate''
      else if severity pattern = ''high'' then ''delayed''
      else ''manual'') \<and>
   get_retry_strategy pattern is_anomaly =
     (get_retry_strategy pattern (\<not> is_anomaly))
       \<lparr>conditions := [(''severity'', CStr (severity pattern)),
                       (''is_anomaly'', CBool is_anomaly)]\<rparr>"
  by (simp add: get_retry_strategy_def)

theorem retry_stage_by_severity_only_witness:
  "stage (get_retry_strategy
            (make_pattern ''ValueError'' ''bad value'' '''' 7 [] 0) True) = ''manual''"
  using retry_stage_by_severity_only
          [of "make_pattern ''ValueError'' ''bad value'' '''' 7 [] 0" True, THEN conjunct1]
  by (simp add: make_pattern_def determine_severity_cases)

text \<open>
  Claim C7 as the specification words it makes an anomalous pattern manual whatever the
  severity. A \<^verbatim>\<open>ConnectionError\<close> that the detector flags (prediction \<open>-1\<close>) is
  classified \<^verbatim>\<open>high\<close> and gets the \<^verbatim>\<open>delayed\<close> stage with five retries.
\<close>

theorem anomalous_connection_error_is_delayed:
  "detect_anomaly (\<lambda>fs. Some [- 1])
     (make_pattern ''ConnectionError'' ''refused'' '''' 7 [] 0) = True \<and>
   stage (select_strategy (\<lambda>fs. Some [- 1]) ''ConnectionError'' ''refused'' '''' 7 [] 0)
     = ''delayed'' \<and>
   stage (select_strategy (\<lambda>fs. Some [- 1]) ''ConnectionError'' ''refused'' '''' 7 [] 0)
     \<noteq> ''manual'' \<and>
   max_retries (select_strategy (\<lambda>fs. Some [- 1]) ''ConnectionError'' ''refused'' '''' 7 [] 0)
     = 5"
  by (simp add: select_strategy_def detect_anomaly_def extract_features_def
      get_retry_strategy_def make_pattern_def determine_severity_cases)

section \<open>Dispatch and dependencies\<close>

lemma run_task_id: "task_id (run_task reg t) = task_id t"
  by (simp add: run_task_def execute_task_def process_result_def Let_def
      split: option.splits handler_outcome.splits)

lemma run_task_status:
  "status (run_task reg t) = COMPLETED \<or> status (run_task reg t) = FAILED"
  by (simp add: run_task_def execute_task_def process_result_def Let_def
      split: option.splits handler_outcome.splits)

lemma set_add_completed:
  "set (add_completed ready acc) = set acc \<union> task_id ` set ready"
  unfolding add_completed_def
  by (induction ready arbitrary: acc) auto

text \<open>A pass keeps the loop invariant, so every loop head has it; and the loop's
  result is the task list of the last loop head.\<close>

lemma round_keeps_finished_ids:
  assumes "finished_ids (ts, completed_tasks)"
  shows "finished_ids (run_round reg ts completed_tasks)"
  unfolding finished_ids_def
proof
  let ?f = "\<lambda>task. if is_ready completed_tasks task then run_task reg task else task"
  fix d
  assume "d \<in> set (snd (run_round reg ts completed_tasks))"
  then consider (old) "d \<in> set completed_tasks"
    | (new) t where "t \<in> set ts" "is_ready completed_tasks t" "d = task_id t"
    by (auto simp: run_round_def set_add_completed ready_tasks_def)
  then show "\<exists>u \<in> set (fst (run_round reg ts completed_tasks)).
               task_id u = d \<and> (status u = COMPLETED \<or> status u = FAILED)"
  proof cases
    case old
    with assms obtain u where u: "u \<in> set ts" "task_id u = d"
      "status u = COMPLETED \<or> status u = FAILED"
      by (auto simp: finished_ids_def)
    from u(2) old have "\<not> is_ready completed_tasks u"
      by (simp add: is_ready_def)
    then have "?f u = u" by simp
    with u(1) have "u \<in> set (map ?f ts)" by force
    with u show ?thesis by (auto simp: run_round_def)
  next
    case new
    have "?f t \<in> set (map ?f ts)" using new(1) by simp
    then have "run_task reg t \<in> set (fst (run_round reg ts completed_tasks))"
      using new(2) by (simp add: run_round_def)
    then show ?thesis
      using new(3) run_task_id [of reg t] run_task_status [of reg t] by blast
  qed
qed

lemma loop_heads_finished_ids:
  "finished_ids (ts, completed_tasks) \<Longrightarrow>
   head \<in> set (loop_heads reg ts completed_tasks) \<Longrightarrow> finished_ids head"
proof (induction reg ts completed_tasks rule: loop_heads.induct)
  case (1 reg ts completed_tasks)
  from "1.prems"(2) consider (here) "head = (ts, completed_tasks)"
    | (later) "length completed_tasks < length ts \<and> ready_tasks ts completed_tasks \<noteq> []"
        "head \<in> set (loop_heads reg (fst (run_round reg ts completed_tasks))
                       (snd (run_round reg ts completed_tasks)))"
    by (subst (asm) loop_heads.simps) (auto split: if_splits)
  then show ?case
  proof cases
    case here
    with "1.prems"(1) show ?thesis by simp
  next
    case later
    have "finished_ids (fst (run_round reg ts completed_tasks),
                        snd (run_round reg ts completed_tasks))"
      using round_keeps_finished_ids [OF "1.prems"(1), of reg] by simp
    from "1.IH" [OF later(1) this later(2)] show ?thesis .
  qed
qed

lemma schedule_last_head:
  "schedule reg ts completed_tasks = fst (last (loop_heads reg ts completed_tasks))"
proof (induction reg ts completed_tasks rule: loop_heads.induct)
  case (1 reg ts completed_tasks)
  show ?case
  proof (cases "length completed_tasks < length ts \<and> ready_tasks ts completed_tasks \<noteq> []")
    case True
    have nonempty: "loop_heads reg ts' c' \<noteq> []" for ts' c'
      by (subst loop_heads.simps) simp
    from True "1.IH" show ?thesis
      by (subst schedule.simps, subst loop_heads.simps) (simp add: nonempty)
  next
    case False
    then show ?thesis
      by (subst schedule.simps, subst loop_heads.simps) auto
  qed
qed

text \<open>
  Claim C1, as the code has it. In every execution, a task is dispatched only when every
  id in its dependencies is in the completed set, and every such id is the id of a task
  that an earlier pass has run and left COMPLETED or FAILED: a dependency gates its
  dependents until it has finished, whether it succeeded or not.
\<close>

theorem dispatch_after_dependencies_finished:
  assumes "head \<in> set (loop_heads reg ts0 [])"
    and "dispatched_at head task"
    and "dep \<in> set (dependencies task)"
  shows "dep \<in> set (snd head) \<and>
         (\<exists>u \<in> set (fst head).
            task_id u = dep \<and> (status u = COMPLETED \<or> status u = FAILED))"
proof -
  have "finished_ids (ts0, [])" by (simp add: finished_ids_def)
  from loop_heads_finished_ids [OF this assms(1)] have inv: "finished_ids head" .
  from assms(2) have "is_ready (snd head) task"
    by (simp add: dispatched_at_def ready_tasks_def)
  with assms(3) have "dep \<in> set (snd head)"
    by (simp add: is_ready_def list_all_iff)
  with inv show ?thesis by (simp add: finished_ids_def)
qed

theorem dispatch_after_dependencies_finished_witness:
  "''A'' \<in> set (snd (loop_heads default_registry
       [new_task ''A'' ''system_check'' [], new_task ''B'' ''data_backup'' [''A'']] [] ! 1)) \<and>
   (\<exists>u \<in> set (fst (loop_heads default_registry
       [new_task ''A'' ''system_check'' [], new_task ''B'' ''data_backup'' [''A'']] [] ! 1)).
      task_id u = ''A'' \<and> (status u = COMPLETED \<or> status u = FAILED))"
proof -
  let ?hs = "loop_heads default_registry
       [new_task ''A'' ''system_check'' [], new_task ''B'' ''data_backup'' [''A'']] []"
  have "1 < length ?hs"
    by (simp add: loop_heads.simps run_round_def is_ready_def ready_tasks_def
        add_completed_def run_task_def execute_task_def process_result_def
        default_registry_def new_task_def Let_def)
  then have head: "?hs ! 1 \<in> set ?hs" by (rule nth_mem)
  have disp: "dispatched_at (?hs ! 1) (new_task ''B'' ''data_backup'' [''A''])"
    by (simp add: dispatched_at_def loop_heads.simps run_round_def is_ready_def
        ready_tasks_def add_completed_def run_task_def execute_task_def process_result_def
        default_registry_def new_task_def Let_def)
  have dep: "''A'' \<in> set (dependencies (new_task ''B'' ''data_backup'' [''A'']))"
    by (simp add: new_task_def)
  from dispatch_after_dependencies_finished [OF head disp dep] show ?thesis .
qed

text \<open>
  Claim C1 as the specification words it lets a task run only after COMPLETED
  dependencies. Task A has no registered handler and fails in the first pass; its id
  joins the completed set all the same, and at the second loop head B, which depends
  on A, is dispatched while A is FAILED.
\<close>

theorem dependent_of_failed_task_dispatched:
  "map (\<lambda>head. (map (\<lambda>task. (task_id task, status task)) (fst head), snd head))
     (loop_heads default_registry
        [new_task ''A'' ''deploy'' [], new_task ''B'' ''system_check'' [''A'']] [])
   = [([(''A'', PENDING), (''B'', PENDING)], []),
      ([(''A'', FAILED), (''B'', PENDING)], [''A'']),
      ([(''A'', FAILED), (''B'', COMPLETED)], [''B'', ''A''])] \<and>
   dispatched_at
     (loop_heads default_registry
        [new_task ''A'' ''deploy'' [], new_task ''B'' ''system_check'' [''A'']] [] ! 1)
     (new_task ''B'' ''system_check'' [''A'']) \<and>
   dependencies (new_task ''B'' ''system_check'' [''A'']) = [''A'']"
  by (simp add: dispatched_at_def loop_heads.simps run_round_def is_ready_def ready_tasks_def
      add_completed_def run_task_def execute_task_def process_result_def
      default_registry_def new_task_def Let_def)

section \<open>Final status of an execution\<close>


section \<open>Creating a workflow\<close>

















section \<open>Executing a workflow in a terminal status\<close>




section \<open>Analytics intake queue\<close>

lemma preprocess_metrics:
  "preprocess_data (JDict [(''cpu_usage'', JInt 93)]) ''system_metrics'' 0 =
     Inr [(''raw_data'', JDict [(''cpu_usage'', JInt 93)]), (''processed_at'', JInt 0),
          (''data_type'', JStr ''system_metrics''), (''cpu_usage'', JInt 93),
          (''memory_usage'', JInt 0), (''disk_usage'', JInt 0), (''network_traffic'', JInt 0)]"
  by (simp add: preprocess_data_def process_system_metrics_def dict_update_def dict_get_def)

text \<open>
  Claim C9, as the code has it. The intake queue has no capacity: whenever the payload
  passes preprocessing, \<^verbatim>\<open>process_data\<close> appends the item to the queue, whatever
  its length, and answers success with the new queue size. No submit is refused for
  a full queue.
\<close>

theorem process_data_always_enqueues:
  assumes "preprocess_data data data_type now = Inr processed"
  shows "process_data eng data data_type now =
           (\<lparr>intake_status = ''success'', intake_message = ''Data queued for processing'',
             intake_queue_size = Some (Suc (length (processing_queue eng)))\<rparr>,
            eng\<lparr>processing_queue := processing_queue eng @
                  [\<lparr>item_data = processed, item_type = data_type, item_timestamp = now\<rparr>]\<rparr>)"
  using assms by (simp add: process_data_def Let_def)

theorem process_data_always_enqueues_witness:
  "intake_queue_size
     (fst (process_data saturated_engine (JDict [(''cpu_usage'', JInt 93)]) ''system_metrics'' 0))
   = Some (Suc (length (processing_queue saturated_engine)))"
  using process_data_always_enqueues [OF preprocess_metrics, of saturated_engine]
  by simp

text \<open>
  Claim C9 as the specification words it bounds the queue (ten thousand by default) and
  answers Backpressure on a full queue. With ten thousand items queued, one more
  submit succeeds and the queue holds ten thousand and one.
\<close>

theorem full_queue_accepts_more:
  "length (processing_queue saturated_engine) = 10000 \<and>
   intake_status
     (fst (process_data saturated_engine (JDict [(''cpu_usage'', JInt 93)]) ''system_metrics'' 0))
     = ''success'' \<and>
   length (processing_queue
     (snd (process_data saturated_engine (JDict [(''cpu_usage'', JInt 93)]) ''system_metrics'' 0)))
     = 10001"
  by (simp add: process_data_def preprocess_metrics Let_def saturated_engine_def)

section \<open>Primary election\<close>

text \<open>Whenever the predicate holds for a node id, a node with that id has the least
  election key of the list.\<close>

lemma elected_has_least_key:
  assumes "should_become_primary nodes c"
  shows "\<exists>n \<in> set nodes. node_id n = c \<and> (\<forall>x \<in> set nodes. election_key n \<le> election_key x)"
proof -
  from assms obtain n rest where sorted_nodes: "sort_key election_key nodes = n # rest"
    and elected: "node_id n = c"
    by (auto simp: should_become_primary_def split: if_splits list.splits)
  have "set (sort_key election_key nodes) = set nodes" by simp
  with sorted_nodes have members: "set nodes = insert n (set rest)" by simp
  have "sorted (map election_key (sort_key election_key nodes))"
    by (rule sorted_sort_key)
  with sorted_nodes have "\<forall>x \<in> set rest. election_key n \<le> election_key x"
    by simp
  with members have "\<forall>x \<in> set nodes. election_key n \<le> election_key x" by simp
  moreover from members have "n \<in> set nodes" by simp
  ultimately show ?thesis using elected by (intro bexI [of _ n] conjI)
qed

text \<open>
  Claim C8 at a failing input. Of the two nodes, node-b has the greater election key
  (priority 5 against 1). The ascending sort puts node-a first, so the predicate holds
  for node-a and fails for node-b.
\<close>

theorem lowest_key_becomes_primary:
  "election_key (two_nodes ! 0) < election_key (two_nodes ! 1) \<and>
   should_become_primary two_nodes ''node-b'' = False \<and>
   should_become_primary two_nodes ''node-a'' = True"
  by (simp add: two_nodes_def should_become_primary_def election_key_def)

section \<open>Checkpoint restoration\<close>



lemma last_checkpoint_update_rows [simp]:
  "last_checkpoint (update_rows db wid f) wid' = last_checkpoint db wid'"
  by (simp add: last_checkpoint_def update_rows_def)

lemma db_up_update_rows [simp]: "db_up (update_rows db wid f) = db_up db"
  by (simp add: update_rows_def)














end
